theory Spec2Isabelle
  imports Main "HOL-Library.AList"
begin

section \<open>Typed access to the heterogeneous container \<open>Values\<close> (Values-inl.h)\<close>

text \<open>
  The container maps keys to type-erased holders \<open>GenericValue<T>\<close>. Everything the
  header does at run time depends on the concrete type \<open>T\<close> of the holder, so the
  embedding carries that type with every value. Template parameters that the C++ compiler
  deduces from an argument (\<open>insert(j, val)\<close>) are read off the value; template
  parameters that the caller writes (\<open>at<T>(j)\<close>) are explicit arguments.

  The key type \<open>Key\<close> is declared outside the header; it is a parameter \<open>'k\<close> with a
  linear order. The coefficient type \<open>double\<close> and the state of non-Eigen objects are the
  parameters \<open>'d\<close> and \<open>'o\<close>: the header only copies them.
\<close>

subsection \<open>Concrete types, values and holders\<close>

text \<open>
  \<open>EigenMatrix R C\<close> is \<open>Eigen::Matrix<double, R, C>\<close>, where \<open>-1\<close> is Eigen's
  \<open>Dynamic\<close>; \<open>Class n\<close> is any other storable type, named \<open>n\<close>.
\<close>

datatype ctype = EigenMatrix int int | Class string

abbreviation Dynamic :: int where
  "Dynamic \<equiv> - 1"

text \<open>
  A value together with its static type. \<open>Matrix R C r c xs\<close> has type
  \<open>Eigen::Matrix<double, R, C>\<close>, \<open>r\<close> rows and \<open>c\<close> columns at run time and the
  coefficients \<open>xs\<close>; \<open>Obj n x\<close> is an object of the class \<open>n\<close>.
\<close>

datatype ('d, 'o) cvalue = Matrix int int nat nat "'d list" | Obj string 'o

fun typeof :: "('d, 'o) cvalue \<Rightarrow> ctype" where
  "typeof (Matrix R C r c xs) = EigenMatrix R C"
| "typeof (Obj n x) = Class n"

fun rows :: "('d, 'o) cvalue \<Rightarrow> nat" where
  "rows (Matrix R C r c xs) = r"
| "rows (Obj n x) = 0"

fun cols :: "('d, 'o) cvalue \<Rightarrow> nat" where
  "cols (Matrix R C r c xs) = c"
| "cols (Obj n x) = 0"

text \<open>
  What a value holds, apart from its compile-time dimensions: shape and coefficients of a
  matrix, class and state of an object.
\<close>

fun contents :: "('d, 'o) cvalue \<Rightarrow> (nat \<times> nat \<times> 'd list) + (string \<times> 'o)" where
  "contents (Matrix R C r c xs) = Inl (r, c, xs)"
| "contents (Obj n x) = Inr (n, x)"

text \<open>
  A matrix value is well formed when its run-time shape agrees with every compile-time
  dimension that is not \<open>Dynamic\<close> and it has \<open>r * c\<close> coefficients.
\<close>

fun wf_cvalue :: "('d, 'o) cvalue \<Rightarrow> bool" where
  "wf_cvalue (Matrix R C r c xs) =
     ((R = Dynamic \<or> R = int r) \<and> (C = Dynamic \<or> C = int c) \<and> length xs = r * c)"
| "wf_cvalue (Obj n x) = True"

text \<open>
  Eigen's converting constructor between matrix types of the same scalar: the
  compile-time dimensions change, shape and coefficients are copied.
\<close>

fun convert :: "int \<Rightarrow> int \<Rightarrow> ('d, 'o) cvalue \<Rightarrow> ('d, 'o) cvalue" where
  "convert R' C' (Matrix R C r c xs) = Matrix R' C' r c xs"
| "convert R' C' (Obj n x) = Obj n x"

text \<open>The holder \<open>GenericValue<T>\<close>, seen through the base class \<open>Value\<close>.\<close>

datatype ('d, 'o) Value = GenericValue "('d, 'o) cvalue"

fun value_of :: "('d, 'o) Value \<Rightarrow> ('d, 'o) cvalue" where
  "value_of (GenericValue v) = v"

text \<open>
  \<open>std::type_info\<close>: of a concrete type (\<open>typeid(ValueType)\<close>), or of the dynamic type
  of a holder (\<open>typeid(*pointer)\<close>, which is \<open>GenericValue<T>\<close>).
\<close>

datatype type_info = typeid ctype | typeid_GenericValue ctype

fun typeid_deref :: "('d, 'o) Value \<Rightarrow> type_info" where
  "typeid_deref (GenericValue v) = typeid_GenericValue (typeof v)"

text \<open>
  \<open>dynamic_cast<const GenericValue<T>&>(value).value()\<close>: the payload when the holder
  is exactly a \<open>GenericValue<T>\<close>, \<open>None\<close> where the C++ throws \<open>std::bad_cast\<close>.
\<close>

fun dynamic_cast :: "ctype \<Rightarrow> ('d, 'o) Value \<Rightarrow> ('d, 'o) cvalue option" where
  "dynamic_cast T (GenericValue v) = (if typeof v = T then Some v else None)"

subsection \<open>Errors\<close>

text \<open>
  The exceptions the header throws. \<open>DuplicateKey\<close> is thrown by the non-template
  \<open>insert\<close> only, which is outside the header; it carries the name the specification
  gives it.
\<close>

datatype 'k error =
    DuplicateKey 'k
  | ValuesKeyDoesNotExist string 'k
  | ValuesIncorrectType 'k type_info type_info
  | NoMatchFoundForFixed int int int int

subsection \<open>The container\<close>

text \<open>
  \<open>KeyValueMap\<close> is a key-ordered map; it is the list of its entries in iteration
  order. \<open>values_.find(j)\<close> is \<open>map_of\<close>.
\<close>

type_synonym ('k, 'd, 'o) Values = "('k \<times> ('d, 'o) Value) list"

definition invar :: "('k::linorder, 'd, 'o) Values \<Rightarrow> bool" where
  "invar c = (sorted (map fst c) \<and> distinct (map fst c))"

subsection \<open>\<open>internal::handle\<close>: checked retrieval from a holder\<close>

text \<open>The primary template: an exact match of the holder's type is required.\<close>

definition handle_general ::
  "ctype \<Rightarrow> 'k \<Rightarrow> ('d, 'o) Value \<Rightarrow> 'k error + ('d, 'o) cvalue" where
  "handle_general ValueType j pointer =
     (case dynamic_cast ValueType pointer of
        Some v \<Rightarrow> Inr v
      | None \<Rightarrow> Inl (ValuesIncorrectType j (typeid_deref pointer) (typeid ValueType)))"

text \<open>
  The specialisations for \<open>Eigen::Matrix<double, -1, 1>\<close> and
  \<open>Eigen::Matrix<double, -1, N>\<close> have the same body.
\<close>

definition handle_dynamic ::
  "int \<Rightarrow> 'k \<Rightarrow> ('d, 'o) Value \<Rightarrow> 'k error + ('d, 'o) cvalue" where
  "handle_dynamic N j pointer =
     (case dynamic_cast (EigenMatrix Dynamic N) pointer of
        Some v \<Rightarrow> Inr v
      | None \<Rightarrow>
          Inl (ValuesIncorrectType j (typeid_deref pointer) (typeid (EigenMatrix Dynamic N))))"

text \<open>
  The specialisations for a fixed vector \<open>Eigen::Matrix<double, M, 1>\<close> and a fixed
  matrix \<open>Eigen::Matrix<double, M, N>\<close>: after a failed exact match they read the
  dynamic counterpart (\<open>VectorXd\<close>, \<open>MatrixXd\<close>) into a \<open>Matrix A\<close>, compare its shape
  and convert it to the requested type.
\<close>

definition handle_fixed_vector ::
  "int \<Rightarrow> 'k \<Rightarrow> ('d, 'o) Value \<Rightarrow> 'k error + ('d, 'o) cvalue" where
  "handle_fixed_vector M j pointer =
     (case dynamic_cast (EigenMatrix M 1) pointer of
        Some v \<Rightarrow> Inr v
      | None \<Rightarrow>
          (case handle_dynamic 1 j pointer of
             Inl e \<Rightarrow> Inl e
           | Inr A \<Rightarrow>
               if int (rows A) \<noteq> M \<or> int (cols A) \<noteq> 1
               then Inl (NoMatchFoundForFixed M 1 (int (rows A)) (int (cols A)))
               else Inr (convert M 1 A)))"

definition handle_fixed_matrix ::
  "int \<Rightarrow> int \<Rightarrow> 'k \<Rightarrow> ('d, 'o) Value \<Rightarrow> 'k error + ('d, 'o) cvalue" where
  "handle_fixed_matrix M N j pointer =
     (case dynamic_cast (EigenMatrix M N) pointer of
        Some v \<Rightarrow> Inr v
      | None \<Rightarrow>
          (case handle_dynamic Dynamic j pointer of
             Inl e \<Rightarrow> Inl e
           | Inr A \<Rightarrow>
               if int (rows A) \<noteq> M \<or> int (cols A) \<noteq> N
               then Inl (NoMatchFoundForFixed M N (int (rows A)) (int (cols A)))
               else Inr (convert M N A)))"

text \<open>
  Which specialisation \<open>handle<ValueType>\<close> names: the full specialisation
  \<open><-1, 1>\<close> and the partial one \<open><-1, N>\<close> before \<open><M, 1>\<close>, that before
  \<open><M, N>\<close>, and the primary template for every type that is not an Eigen matrix.
\<close>

fun handle :: "ctype \<Rightarrow> 'k \<Rightarrow> ('d, 'o) Value \<Rightarrow> 'k error + ('d, 'o) cvalue" where
  "handle (EigenMatrix M N) j pointer =
     (if M = Dynamic then handle_dynamic N j pointer
      else if N = 1 then handle_fixed_vector M j pointer
      else handle_fixed_matrix M N j pointer)"
| "handle (Class n) j pointer = handle_general (Class n) j pointer"

subsection \<open>\<open>Values::at\<close> and \<open>Values::exists\<close>\<close>

text \<open>
  Both look the key up and then cast the holder to \<open>GenericValue<ValueType>\<close>
  themselves; neither calls \<open>internal::handle\<close>.
\<close>

definition at ::
  "ctype \<Rightarrow> 'k \<Rightarrow> ('k, 'd, 'o) Values \<Rightarrow> 'k error + ('d, 'o) cvalue" where
  "at ValueType j c =
     (case map_of c j of
        None \<Rightarrow> Inl (ValuesKeyDoesNotExist ''at'' j)
      | Some item \<Rightarrow>
          (case dynamic_cast ValueType item of
             Some v \<Rightarrow> Inr v
           | None \<Rightarrow> Inl (ValuesIncorrectType j (typeid_deref item) (typeid ValueType))))"

definition exists ::
  "ctype \<Rightarrow> 'k \<Rightarrow> ('k, 'd, 'o) Values \<Rightarrow> 'k error + ('d, 'o) cvalue option" where
  "exists ValueType j c =
     (case map_of c j of
        Some item \<Rightarrow>
          (case dynamic_cast ValueType item of
             Some v \<Rightarrow> Inr (Some v)
           | None \<Rightarrow> Inl (ValuesIncorrectType j (typeid_deref item) (typeid ValueType)))
      | None \<Rightarrow> Inr None)"

subsection \<open>\<open>internal::handle_wrap\<close>, \<open>Values::insert\<close> and \<open>Values::update\<close>\<close>

text \<open>
  The holder built for a value of type \<open>ValueType\<close>: \<open>GenericValue<VectorXd>\<close> for
  \<open>Eigen::Matrix<double, M, 1>\<close>, \<open>GenericValue<MatrixXd>\<close> for any other
  \<open>Eigen::Matrix<double, M, N>\<close>, \<open>GenericValue<ValueType>\<close> otherwise.
\<close>

fun handle_wrap :: "'k \<Rightarrow> ('d, 'o) cvalue \<Rightarrow> ('d, 'o) Value" where
  "handle_wrap j (Obj n x) = GenericValue (Obj n x)"
| "handle_wrap j (Matrix M N r c xs) =
     (if N = 1 then GenericValue (convert Dynamic 1 (Matrix M N r c xs))
      else GenericValue (convert Dynamic Dynamic (Matrix M N r c xs)))"

text \<open>
  Modelled from the spec: the non-template \<open>Values::insert(Key, const Value&)\<close>,
  which the header calls and does not define. It fails with \<open>DuplicateKey\<close> if the key
  is already present and leaves the container as it was; otherwise it stores a clone of
  the holder under the key, at the key's place in ascending order. An operation returns
  its outcome together with the container after it.
\<close>

definition insert_holder ::
  "'k::linorder \<Rightarrow> ('d, 'o) Value \<Rightarrow> ('k, 'd, 'o) Values
     \<Rightarrow> ('k error + unit) \<times> ('k, 'd, 'o) Values" where
  "insert_holder j v c =
     (case map_of c j of
        Some old \<Rightarrow> (Inl (DuplicateKey j), c)
      | None \<Rightarrow> (Inr (), insort_key fst (j, v) c))"

text \<open>
  Modelled from the spec: the non-template \<open>Values::update(Key, const Value&)\<close>,
  which the header calls and does not define. It fails with \<open>KeyDoesNotExist\<close> naming
  the operation if the key is absent; otherwise it replaces the holder stored under the
  key.
\<close>

definition update_holder ::
  "'k \<Rightarrow> ('d, 'o) Value \<Rightarrow> ('k, 'd, 'o) Values
     \<Rightarrow> ('k error + unit) \<times> ('k, 'd, 'o) Values" where
  "update_holder j v c =
     (case map_of c j of
        None \<Rightarrow> (Inl (ValuesKeyDoesNotExist ''update'' j), c)
      | Some old \<Rightarrow> (Inr (), AList.update j v c))"

text \<open>
  Modelled from the spec: \<open>Values::erase(Key)\<close>, which is not in the header. It
  fails with \<open>KeyDoesNotExist\<close> naming the operation if the key is absent; otherwise it
  removes the entry.
\<close>

definition erase ::
  "'k \<Rightarrow> ('k, 'd, 'o) Values \<Rightarrow> ('k error + unit) \<times> ('k, 'd, 'o) Values" where
  "erase j c =
     (case map_of c j of
        None \<Rightarrow> (Inl (ValuesKeyDoesNotExist ''erase'' j), c)
      | Some old \<Rightarrow> (Inr (), AList.delete j c))"

text \<open>The templates of the header wrap the value and call the non-template overload.\<close>

definition insert_Values ::
  "'k::linorder \<Rightarrow> ('d, 'o) cvalue \<Rightarrow> ('k, 'd, 'o) Values
     \<Rightarrow> ('k error + unit) \<times> ('k, 'd, 'o) Values" where
  "insert_Values j val c = insert_holder j (handle_wrap j val) c"

definition update_Values ::
  "'k \<Rightarrow> ('d, 'o) cvalue \<Rightarrow> ('k, 'd, 'o) Values
     \<Rightarrow> ('k error + unit) \<times> ('k, 'd, 'o) Values" where
  "update_Values j val c = update_holder j (handle_wrap j val) c"

subsection \<open>Filtered views\<close>

text \<open>
  \<open>filterHelper<Value>\<close>, the specialisation in the header: the key predicate alone.
\<close>

definition filterHelper_Value ::
  "('k \<Rightarrow> bool) \<Rightarrow> 'k \<times> ('d, 'o) Value \<Rightarrow> bool" where
  "filterHelper_Value filterFcn key_value = filterFcn (fst key_value)"

text \<open>
  Modelled from the spec: the primary template \<open>filterHelper<ValueType>\<close>, which the
  header binds in \<open>filter\<close> and does not define. It combines the caller's key predicate
  with the type filter: an entry passes when its key satisfies the predicate and its
  stored type is \<open>ValueType\<close>.
\<close>

definition filterHelper ::
  "ctype \<Rightarrow> ('k \<Rightarrow> bool) \<Rightarrow> 'k \<times> ('d, 'o) Value \<Rightarrow> bool" where
  "filterHelper ValueType filterFcn key_value =
     (filterFcn (fst key_value) \<and> dynamic_cast ValueType (snd key_value) \<noteq> None)"

text \<open>
  \<open>ValuesCastHelper::cast\<close>: a \<open>static_cast\<close> of the holder to
  \<open>GenericValue<ValueType>\<close> and its payload, with no check.
\<close>

definition cast :: "'k \<times> ('d, 'o) Value \<Rightarrow> 'k \<times> ('d, 'o) cvalue" where
  "cast key_value = (fst key_value, value_of (snd key_value))"

text \<open>
  A view is a transform iterator over a filter iterator over the container; what one
  traversal from \<open>begin\<close> to \<open>end\<close> yields is the list of the casted pairs of the
  entries that pass, in the container's order.
\<close>

definition filter_Values ::
  "ctype \<Rightarrow> ('k \<Rightarrow> bool) \<Rightarrow> ('k, 'd, 'o) Values \<Rightarrow> ('k \<times> ('d, 'o) cvalue) list" where
  "filter_Values ValueType filterFcn c =
     map cast (filter (filterHelper ValueType filterFcn) c)"

definition filter_Values_Value ::
  "('k \<Rightarrow> bool) \<Rightarrow> ('k, 'd, 'o) Values \<Rightarrow> ('k \<times> ('d, 'o) Value) list" where
  "filter_Values_Value filterFcn c = filter (filterHelper_Value filterFcn) c"

text \<open>
  \<open>size()\<close> walks the view and counts. The counter is a \<open>size_t\<close>; it counts
  entries of a map held in memory, which are fewer than the counter's range, so it is a
  natural number here.
\<close>

fun size_loop :: "'a list \<Rightarrow> nat \<Rightarrow> nat" where
  "size_loop [] i = i"
| "size_loop (it # rest) i = size_loop rest (i + 1)"

definition size_Filtered :: "'a list \<Rightarrow> nat" where
  "size_Filtered view = size_loop view 0"

text \<open>\<open>ConstFiltered::keys()\<close> appends the key of every pair the view yields.\<close>

fun keys_loop :: "('k \<times> 'a) list \<Rightarrow> 'k list \<Rightarrow> 'k list" where
  "keys_loop [] result = result"
| "keys_loop (it # rest) result = keys_loop rest (result @ [fst it])"

definition keys_ConstFiltered :: "('k \<times> 'a) list \<Rightarrow> 'k list" where
  "keys_ConstFiltered view = keys_loop view []"

text \<open>
  The constructors from a view insert every pair the view yields into the container
  under construction, which starts empty; an exception of \<open>insert\<close> ends the
  construction.
\<close>

fun insert_all ::
  "('k::linorder \<times> ('d, 'o) cvalue) list \<Rightarrow> ('k, 'd, 'o) Values
     \<Rightarrow> 'k error + ('k, 'd, 'o) Values" where
  "insert_all [] c = Inr c"
| "insert_all (key_value # rest) c =
     (case insert_Values (fst key_value) (snd key_value) c of
        (Inl e, c') \<Rightarrow> Inl e
      | (Inr u, c') \<Rightarrow> insert_all rest c')"

definition Values_of_Filtered ::
  "('k::linorder \<times> ('d, 'o) cvalue) list \<Rightarrow> 'k error + ('k, 'd, 'o) Values" where
  "Values_of_Filtered view = insert_all view []"

subsection \<open>Predicates of the properties\<close>

text \<open>
  A fixed-size numeric array type: an Eigen matrix type with no \<open>Dynamic\<close> dimension.
\<close>

fun fixed_size :: "ctype \<Rightarrow> bool" where
  "fixed_size (EigenMatrix R C) = (R \<noteq> Dynamic \<and> C \<noteq> Dynamic)"
| "fixed_size (Class n) = False"

definition no_fixed :: "('k, 'd, 'o) Values \<Rightarrow> bool" where
  "no_fixed c =
     list_all (\<lambda>key_value. \<not> fixed_size (typeof (value_of (snd key_value)))) c"

text \<open>
  The container of the specification's example: keys 1 and 3 hold rotations (an object
  of class \<open>Rot3\<close>, its state an angle in degrees), key 2 holds the vector \<open>[1, 2]\<close>,
  stored as a \<open>VectorXd\<close>.
\<close>

definition example_Values :: "(nat, int, int) Values" where
  "example_Values =
     [(1, GenericValue (Obj ''Rot3'' 0)),
      (2, GenericValue (Matrix Dynamic 1 2 1 [1, 2])),
      (3, GenericValue (Obj ''Rot3'' 90))]"

section \<open>Properties\<close>

subsection \<open>Lookup and the key-ordered list\<close>

lemma absent_iff: "map_of c k = None \<longleftrightarrow> k \<notin> fst ` set c"
  by (simp add: map_of_eq_None_iff)

lemma present_obtains:
  assumes "k \<in> fst ` set c"
  obtains old where "map_of c k = Some old"
  using assms by (cases "map_of c k") (auto simp: absent_iff)

lemma map_of_insort_key:
  "j \<notin> fst ` set c \<Longrightarrow> map_of (insort_key fst (j, v) c) = (map_of c)(j \<mapsto> v)"
  by (induction c) (auto simp: fun_upd_twist)

lemma set_fst_insort_key: "fst ` set (insort_key fst (k, h) c) = insert k (fst ` set c)"
  by (simp add: set_insort_key)

lemma invar_Nil: "invar []"
  by (simp add: invar_def)

lemma invar_insort_key:
  "invar c \<Longrightarrow> j \<notin> fst ` set c \<Longrightarrow> invar (insort_key fst (j, v) c)"
  by (simp add: invar_def sorted_insort_key distinct_insort_key)

lemma invar_update: "invar c \<Longrightarrow> j \<in> fst ` set c \<Longrightarrow> invar (AList.update j v c)"
  by (simp add: invar_def update_keys)

lemma invar_delete: "invar c \<Longrightarrow> invar (AList.delete j c)"
  unfolding invar_def
  by (simp add: AList.delete_eq distinct_map_filter sorted_filter)

lemma invar_example_Values: "invar example_Values"
  by (simp add: invar_def example_Values_def)

subsection \<open>The outcomes of \<open>insert\<close> and \<open>update\<close>\<close>

lemma insert_Values_absent:
  "k \<notin> fst ` set c \<Longrightarrow>
     insert_Values k v c = (Inr (), insort_key fst (k, handle_wrap k v) c)"
  by (simp add: insert_Values_def insert_holder_def absent_iff [symmetric])

lemma insert_Values_present:
  assumes "k \<in> fst ` set c"
  shows "insert_Values k v c = (Inl (DuplicateKey k), c)"
  using assms by (auto elim!: present_obtains simp: insert_Values_def insert_holder_def)

lemma update_Values_present:
  assumes "k \<in> fst ` set c"
  shows "update_Values k v c = (Inr (), AList.update k (handle_wrap k v) c)"
  using assms by (auto elim!: present_obtains simp: update_Values_def update_holder_def)

lemma update_Values_absent:
  "k \<notin> fst ` set c \<Longrightarrow>
     update_Values k v c = (Inl (ValuesKeyDoesNotExist ''update'' k), c)"
  by (simp add: update_Values_def update_holder_def absent_iff [symmetric])

text \<open>The container invariant is kept by every operation that changes the container.\<close>

lemma invar_insert_Values: "invar c \<Longrightarrow> invar (snd (insert_Values k v c))"
  by (cases "k \<in> fst ` set c")
     (simp_all add: insert_Values_present insert_Values_absent invar_insort_key)

lemma invar_update_Values: "invar c \<Longrightarrow> invar (snd (update_Values k v c))"
  by (cases "k \<in> fst ` set c")
     (simp_all add: update_Values_present update_Values_absent invar_update)

lemma invar_erase: "invar c \<Longrightarrow> invar (snd (erase k c))"
  by (cases "map_of c k") (simp_all add: erase_def invar_delete)

subsection \<open>Promotion\<close>

lemma handle_wrap_Matrix:
  "handle_wrap k (Matrix M N r cl xs) =
     GenericValue (Matrix Dynamic (if N = 1 then 1 else Dynamic) r cl xs)"
  by simp

lemma handle_wrap_not_fixed: "\<not> fixed_size (typeof (value_of (handle_wrap k v)))"
  by (cases v) simp_all

lemma contents_handle_wrap: "contents (value_of (handle_wrap k v)) = contents v"
  by (cases v) simp_all

lemma no_fixed_insort_key:
  "no_fixed (insort_key fst (k, h) c) \<longleftrightarrow> \<not> fixed_size (typeof (value_of h)) \<and> no_fixed c"
  by (auto simp: no_fixed_def list_all_iff set_insort_key)

lemma no_fixed_update:
  "no_fixed c \<Longrightarrow> \<not> fixed_size (typeof (value_of h)) \<Longrightarrow> no_fixed (AList.update k h c)"
  by (induction c) (auto simp: no_fixed_def)

lemma no_fixed_insert_Values: "no_fixed c \<Longrightarrow> no_fixed (snd (insert_Values k v c))"
  by (cases "k \<in> fst ` set c")
     (simp_all add: insert_Values_present insert_Values_absent no_fixed_insort_key
        handle_wrap_not_fixed)

lemma no_fixed_update_Values: "no_fixed c \<Longrightarrow> no_fixed (snd (update_Values k v c))"
  by (cases "k \<in> fst ` set c")
     (simp_all add: update_Values_present update_Values_absent no_fixed_update
        handle_wrap_not_fixed)

subsection \<open>Retrieval after insertion\<close>

text \<open>
  Where wrapping keeps the type of the value, \<open>at\<close> returns what \<open>insert\<close> stored;
  where wrapping changes it, \<open>at\<close> for the type of the value fails. The second case is
  that of every Eigen matrix type other than \<open>VectorXd\<close> and \<open>MatrixXd\<close>.
\<close>

lemma map_of_after_insert:
  "k \<notin> fst ` set c \<Longrightarrow> map_of (snd (insert_Values k v c)) k = Some (handle_wrap k v)"
  by (simp add: insert_Values_absent map_of_insort_key)

lemma at_after_insert_same_type:
  assumes "k \<notin> fst ` set c" and "handle_wrap k v = GenericValue v"
  shows "at (typeof v) k (snd (insert_Values k v c)) = Inr v"
  using assms by (simp add: at_def map_of_after_insert)

lemma at_after_insert_promoted:
  assumes "k \<notin> fst ` set c" and "typeof (value_of (handle_wrap k v)) \<noteq> typeof v"
  shows "at (typeof v) k (snd (insert_Values k v c)) =
           Inl (ValuesIncorrectType k (typeid_deref (handle_wrap k v)) (typeid (typeof v)))"
  using assms by (cases "handle_wrap k v") (simp add: at_def map_of_after_insert)

text \<open>
  \<open>internal::handle\<close>, applied to the holder that \<open>insert\<close> stores for a fixed vector
  of length 3, returns the vector for the request of length 3 and reports the shapes for
  the request of length 4.
\<close>

lemma handle_fixed3_of_wrapped:
  "handle (EigenMatrix 3 1) k (handle_wrap k (Matrix 3 1 3 1 xs)) = Inr (Matrix 3 1 3 1 xs)"
  by (simp add: handle_fixed_vector_def handle_dynamic_def)

lemma handle_fixed4_of_wrapped:
  "handle (EigenMatrix 4 1) k (handle_wrap k (Matrix 3 1 3 1 xs)) =
     Inl (NoMatchFoundForFixed 4 1 3 1)"
  by (simp add: handle_fixed_vector_def handle_dynamic_def)

lemma handle_fixed_matrix_of_wrapped:
  assumes "M \<noteq> Dynamic" and "N \<noteq> 1" and "N \<noteq> Dynamic" and "wf_cvalue (Matrix M N r cl xs)"
  shows "handle (EigenMatrix M N) k (handle_wrap k (Matrix M N r cl xs)) =
           Inr (Matrix M N r cl xs)"
  using assms by (auto simp: handle_fixed_matrix_def handle_dynamic_def)

text \<open>
  Claim C1: inserting a fixed-size vector of length 3 under a key and then calling \<open>at\<close>
  for the fixed-size-3 type returns the inserted value, and \<open>at\<close> for the fixed-size-4
  type fails with the shape mismatch \<open>(4, 1, 3, 1)\<close>. The header does neither:
  \<open>insert\<close> stores the vector in a \<open>GenericValue<VectorXd>\<close>, and \<open>at\<close> casts to
  \<open>GenericValue<ValueType>\<close> without going through \<open>internal::handle\<close>, so both
  requests end in \<open>ValuesIncorrectType\<close>.
\<close>

theorem at_fixed3_after_insert_fixed3:
  "at (EigenMatrix 3 1) (1::nat)
     (snd (insert_Values 1 (Matrix 3 1 3 1 [1, 2, 3] :: (int, unit) cvalue) [])) =
     Inl (ValuesIncorrectType 1 (typeid_GenericValue (EigenMatrix Dynamic 1))
       (typeid (EigenMatrix 3 1))) \<and>
   at (EigenMatrix 4 1) (1::nat)
     (snd (insert_Values 1 (Matrix 3 1 3 1 [1, 2, 3] :: (int, unit) cvalue) [])) =
     Inl (ValuesIncorrectType 1 (typeid_GenericValue (EigenMatrix Dynamic 1))
       (typeid (EigenMatrix 4 1)))"
  by (simp add: at_def insert_Values_def insert_holder_def)

text \<open>
  Claim C2: for every key and every value of a storable type, on a container without the
  key, \<open>insert\<close> followed by \<open>at\<close> for the type of the value returns the value. The
  header breaks this for a fixed-size matrix: a \<open>2 \<times> 2\<close> matrix is stored
  in a \<open>GenericValue<MatrixXd>\<close>, and \<open>at\<close> for the \<open>2 \<times> 2\<close> type fails with
  \<open>ValuesIncorrectType\<close>.
\<close>

theorem at_after_insert_fixed_matrix:
  "at (EigenMatrix 2 2) (5::nat)
     (snd (insert_Values 5 (Matrix 2 2 2 2 [1, 2, 3, 4] :: (int, unit) cvalue) [])) =
     Inl (ValuesIncorrectType 5 (typeid_GenericValue (EigenMatrix Dynamic Dynamic))
       (typeid (EigenMatrix 2 2)))"
  by (simp add: at_def insert_Values_def insert_holder_def)

text \<open>
  Claim C3: a fixed-length vector or fixed-shape matrix passed to \<open>insert\<close> or
  \<open>update\<close> is stored in a holder of the dynamic-size type (\<open>VectorXd\<close> for one
  column, \<open>MatrixXd\<close> otherwise) with the same shape and coefficients, and no
  \<open>insert\<close> or \<open>update\<close> makes the container hold a fixed-size numeric array type.
\<close>

theorem promotion_on_insert_and_update:
  "(k \<notin> fst ` set c \<longrightarrow>
      map_of (snd (insert_Values k (Matrix M N r cl xs) c)) k =
        Some (GenericValue (Matrix Dynamic (if N = 1 then 1 else Dynamic) r cl xs))) \<and>
   (k \<in> fst ` set c \<longrightarrow>
      map_of (snd (update_Values k (Matrix M N r cl xs) c)) k =
        Some (GenericValue (Matrix Dynamic (if N = 1 then 1 else Dynamic) r cl xs))) \<and>
   (no_fixed c \<longrightarrow>
      no_fixed (snd (insert_Values k v c)) \<and> no_fixed (snd (update_Values k v c)))"
proof (intro conjI impI)
  assume "k \<notin> fst ` set c"
  then show "map_of (snd (insert_Values k (Matrix M N r cl xs) c)) k =
        Some (GenericValue (Matrix Dynamic (if N = 1 then 1 else Dynamic) r cl xs))"
    by (simp add: insert_Values_absent map_of_insort_key del: handle_wrap.simps
          add: handle_wrap_Matrix)
next
  assume "k \<in> fst ` set c"
  then show "map_of (snd (update_Values k (Matrix M N r cl xs) c)) k =
        Some (GenericValue (Matrix Dynamic (if N = 1 then 1 else Dynamic) r cl xs))"
    by (simp add: update_Values_present update_conv' del: handle_wrap.simps
          add: handle_wrap_Matrix)
next
  assume "no_fixed c"
  then show "no_fixed (snd (insert_Values k v c))"
    by (rule no_fixed_insert_Values)
next
  assume "no_fixed c"
  then show "no_fixed (snd (update_Values k v c))"
    by (rule no_fixed_update_Values)
qed

theorem promotion_on_insert_and_update_witness:
  "(4::nat) \<notin> fst ` set example_Values \<and>
   map_of (snd (insert_Values 4 (Matrix 3 1 3 1 [7, 8, 9]) example_Values)) 4 =
     Some (GenericValue (Matrix Dynamic 1 3 1 [7, 8, 9])) \<and>
   (1::nat) \<in> fst ` set example_Values \<and>
   map_of (snd (update_Values 1 (Matrix 2 2 2 2 [1, 2, 3, 4]) example_Values)) 1 =
     Some (GenericValue (Matrix Dynamic Dynamic 2 2 [1, 2, 3, 4])) \<and>
   no_fixed example_Values \<and>
   no_fixed (snd (insert_Values 4 (Matrix 3 1 3 1 [7, 8, 9]) example_Values)) \<and>
   no_fixed (snd (update_Values 4 (Matrix 3 1 3 1 [7, 8, 9]) example_Values))"
proof -
  have absent: "(4::nat) \<notin> fst ` set example_Values"
    by (simp add: example_Values_def)
  have present: "(1::nat) \<in> fst ` set example_Values"
    by (simp add: example_Values_def)
  have nf: "no_fixed example_Values"
    by (simp add: no_fixed_def example_Values_def)
  show ?thesis
    using absent present nf
      promotion_on_insert_and_update
        [of 4 example_Values 3 1 3 1 "[7, 8, 9]" "Matrix 3 1 3 1 [7, 8, 9]"]
      promotion_on_insert_and_update
        [of 1 example_Values 2 2 2 2 "[1, 2, 3, 4]" "Matrix 3 1 3 1 [7, 8, 9]"]
    by simp
qed

subsection \<open>Typed access\<close>

text \<open>
  Claim C4: \<open>exists<T>(k)\<close> on a container without \<open>k\<close> returns an empty result and
  raises no error; on a container where \<open>k\<close> holds a value whose stored type is not
  \<open>T\<close> it fails with \<open>ValuesIncorrectType\<close>.
\<close>

theorem exists_absent_or_wrong_type:
  "(k \<notin> fst ` set c \<longrightarrow> exists T k c = Inr None) \<and>
   (\<forall>v. map_of c k = Some (GenericValue v) \<and> typeof v \<noteq> T \<longrightarrow>
      exists T k c =
        Inl (ValuesIncorrectType k (typeid_GenericValue (typeof v)) (typeid T)))"
  by (auto simp: exists_def absent_iff [symmetric])

theorem exists_absent_or_wrong_type_witness:
  "(4::nat) \<notin> fst ` set example_Values \<and>
   exists (Class ''Rot3'') 4 example_Values = Inr None \<and>
   map_of example_Values 2 = Some (GenericValue (Matrix Dynamic 1 2 1 [1, 2])) \<and>
   typeof (Matrix Dynamic 1 2 1 [1, 2] :: (int, int) cvalue) \<noteq> Class ''Rot3'' \<and>
   exists (Class ''Rot3'') 2 example_Values =
     Inl (ValuesIncorrectType 2 (typeid_GenericValue (EigenMatrix Dynamic 1))
       (typeid (Class ''Rot3'')))"
proof -
  have absent: "(4::nat) \<notin> fst ` set example_Values"
    by (simp add: example_Values_def)
  have stored: "map_of example_Values 2 = Some (GenericValue (Matrix Dynamic 1 2 1 [1, 2]))"
    by (simp add: example_Values_def)
  have other: "typeof (Matrix Dynamic 1 2 1 [1, 2] :: (int, int) cvalue) \<noteq> Class ''Rot3''"
    by simp
  show ?thesis
    using absent stored other
      exists_absent_or_wrong_type [of 4 example_Values "Class ''Rot3''"]
      exists_absent_or_wrong_type [of 2 example_Values "Class ''Rot3''"]
    by simp
qed

text \<open>
  Claim C7: if \<open>k\<close> holds a value of stored type \<open>A\<close>, then \<open>at<B>(k)\<close> for any
  other type \<open>B\<close> fails with \<open>ValuesIncorrectType\<close> carrying \<open>k\<close>, the type
  information of the holder of \<open>A\<close> and that of \<open>B\<close>.
\<close>

theorem at_incorrect_type:
  assumes "map_of c k = Some (GenericValue v)" and "typeof v \<noteq> B"
  shows "at B k c = Inl (ValuesIncorrectType k (typeid_GenericValue (typeof v)) (typeid B))"
  using assms by (simp add: at_def)

theorem at_incorrect_type_witness:
  "map_of example_Values 2 = Some (GenericValue (Matrix Dynamic 1 2 1 [1, 2])) \<and>
   typeof (Matrix Dynamic 1 2 1 [1, 2] :: (int, int) cvalue) \<noteq> Class ''Rot3'' \<and>
   at (Class ''Rot3'') 2 example_Values =
     Inl (ValuesIncorrectType 2 (typeid_GenericValue (EigenMatrix Dynamic 1))
       (typeid (Class ''Rot3'')))"
proof -
  have stored: "map_of example_Values 2 = Some (GenericValue (Matrix Dynamic 1 2 1 [1, 2]))"
    by (simp add: example_Values_def)
  have other: "typeof (Matrix Dynamic 1 2 1 [1, 2] :: (int, int) cvalue) \<noteq> Class ''Rot3''"
    by simp
  show ?thesis
    using stored other at_incorrect_type [OF stored other] by simp
qed

text \<open>
  Claim C8: for a key \<open>k\<close> that the container does not hold, \<open>at<T>(k)\<close>,
  \<open>update(k, v)\<close> and \<open>erase(k)\<close> each fail with \<open>ValuesKeyDoesNotExist\<close> naming
  the operation and \<open>k\<close>, and \<open>exists<T>(k)\<close> returns an empty result without error.
\<close>

theorem missing_key_contract:
  assumes "k \<notin> fst ` set c"
  shows "at T k c = Inl (ValuesKeyDoesNotExist ''at'' k) \<and>
         fst (update_Values k v c) = Inl (ValuesKeyDoesNotExist ''update'' k) \<and>
         fst (erase k c) = Inl (ValuesKeyDoesNotExist ''erase'' k) \<and>
         exists T k c = Inr None"
proof -
  from assms have "map_of c k = None"
    by (simp add: absent_iff)
  then show ?thesis
    by (simp add: at_def update_Values_def update_holder_def erase_def exists_def)
qed

theorem missing_key_contract_witness:
  "(4::nat) \<notin> fst ` set example_Values \<and>
   at (Class ''Rot3'') 4 example_Values = Inl (ValuesKeyDoesNotExist ''at'' 4) \<and>
   fst (update_Values 4 (Obj ''Rot3'' 45) example_Values) =
     Inl (ValuesKeyDoesNotExist ''update'' 4) \<and>
   fst (erase 4 example_Values) = Inl (ValuesKeyDoesNotExist ''erase'' 4) \<and>
   exists (Class ''Rot3'') 4 example_Values = Inr None"
proof -
  have absent: "(4::nat) \<notin> fst ` set example_Values"
    by (simp add: example_Values_def)
  show ?thesis
    using absent missing_key_contract [OF absent, of "Class ''Rot3''" "Obj ''Rot3'' 45"]
    by simp
qed

text \<open>
  Claim C9: for a key \<open>k\<close> that the container already holds and any value \<open>v\<close>,
  \<open>insert(k, v)\<close> fails with \<open>DuplicateKey\<close> and the container after the call is the
  container before it.
\<close>

theorem duplicate_insert_rejected:
  assumes "k \<in> fst ` set c"
  shows "insert_Values k v c = (Inl (DuplicateKey k), c)"
proof -
  from assms obtain old where "map_of c k = Some old"
    by (rule present_obtains)
  then show ?thesis
    by (simp add: insert_Values_def insert_holder_def)
qed

theorem duplicate_insert_rejected_witness:
  "(2::nat) \<in> fst ` set example_Values \<and>
   insert_Values 2 (Obj ''Rot3'' 45) example_Values = (Inl (DuplicateKey 2), example_Values)"
proof -
  have present: "(2::nat) \<in> fst ` set example_Values"
    by (simp add: example_Values_def)
  show ?thesis
    using present duplicate_insert_rejected [OF present, of "Obj ''Rot3'' 45"] by simp
qed

text \<open>
  Claim C10: for a key \<open>k\<close> that the container holds and any type \<open>T\<close>, when
  \<open>at<T>(k)\<close> returns a value then \<open>exists<T>(k)\<close> returns a non-empty result with
  that value, and when \<open>at<T>(k)\<close> fails with \<open>ValuesIncorrectType\<close> then
  \<open>exists<T>(k)\<close> fails with the same key, actual type and requested type.
\<close>

theorem exists_agrees_with_at:
  assumes "k \<in> fst ` set c"
  shows "(\<forall>v. at T k c = Inr v \<longrightarrow> exists T k c = Inr (Some v)) \<and>
         (\<forall>a b. at T k c = Inl (ValuesIncorrectType k a b) \<longrightarrow>
            exists T k c = Inl (ValuesIncorrectType k a b))"
proof -
  from assms obtain item where "map_of c k = Some item"
    by (rule present_obtains)
  then show ?thesis
    by (auto simp: at_def exists_def split: option.splits)
qed

theorem exists_agrees_with_at_witness:
  "(1::nat) \<in> fst ` set example_Values \<and>
   at (Class ''Rot3'') 1 example_Values = Inr (Obj ''Rot3'' 0) \<and>
   exists (Class ''Rot3'') 1 example_Values = Inr (Some (Obj ''Rot3'' 0)) \<and>
   at (EigenMatrix Dynamic 1) 1 example_Values =
     Inl (ValuesIncorrectType 1 (typeid_GenericValue (Class ''Rot3''))
       (typeid (EigenMatrix Dynamic 1))) \<and>
   exists (EigenMatrix Dynamic 1) 1 example_Values =
     Inl (ValuesIncorrectType 1 (typeid_GenericValue (Class ''Rot3''))
       (typeid (EigenMatrix Dynamic 1)))"
proof -
  have present: "(1::nat) \<in> fst ` set example_Values"
    by (simp add: example_Values_def)
  have ok: "at (Class ''Rot3'') 1 example_Values = Inr (Obj ''Rot3'' 0)"
    by (simp add: at_def example_Values_def)
  have bad: "at (EigenMatrix Dynamic 1) 1 example_Values =
     Inl (ValuesIncorrectType 1 (typeid_GenericValue (Class ''Rot3''))
       (typeid (EigenMatrix Dynamic 1)))"
    by (simp add: at_def example_Values_def)
  show ?thesis
    using present ok bad
      exists_agrees_with_at [OF present, of "Class ''Rot3''"]
      exists_agrees_with_at [OF present, of "EigenMatrix Dynamic 1"]
    by simp
qed

subsection \<open>Filtered views\<close>

lemma size_loop_length: "size_loop view i = i + length view"
  by (induction view arbitrary: i) simp_all

lemma size_Filtered_length: "size_Filtered view = length view"
  by (simp add: size_Filtered_def size_loop_length)

lemma keys_loop_append: "keys_loop view result = result @ map fst view"
  by (induction view arbitrary: result) simp_all

lemma keys_ConstFiltered_map: "keys_ConstFiltered view = map fst view"
  by (simp add: keys_ConstFiltered_def keys_loop_append)

lemma map_fst_filter_Values:
  "map fst (filter_Values T p c) = map fst (filter (filterHelper T p) c)"
  by (simp add: filter_Values_def cast_def comp_def)

lemma invar_filter_Values:
  assumes "invar c"
  shows "sorted (map fst (filter_Values T p c))"
    and "distinct (map fst (filter_Values T p c))"
  using assms
  by (simp_all add: invar_def map_fst_filter_Values sorted_filter distinct_map_filter)

lemma set_filter_Values:
  assumes "invar c"
  shows "set (filter_Values T p c) =
           {(k, v). p k \<and> map_of c k = Some (GenericValue v) \<and> typeof v = T}"
proof -
  from assms have d: "distinct (map fst c)"
    by (simp add: invar_def)
  have "(k, v) \<in> set (filter_Values T p c) \<longleftrightarrow>
          p k \<and> map_of c k = Some (GenericValue v) \<and> typeof v = T" for k v
  proof
    assume "(k, v) \<in> set (filter_Values T p c)"
    then obtain h where h: "(k, h) \<in> set c" "filterHelper T p (k, h)" "v = value_of h"
      by (auto simp: filter_Values_def cast_def)
    then show "p k \<and> map_of c k = Some (GenericValue v) \<and> typeof v = T"
      using d by (cases h) (auto simp: filterHelper_def split: if_splits)
  next
    assume "p k \<and> map_of c k = Some (GenericValue v) \<and> typeof v = T"
    then have "(k, GenericValue v) \<in> set c" "filterHelper T p (k, GenericValue v)"
      by (auto simp: filterHelper_def dest: map_of_SomeD)
    then have "cast (k, GenericValue v) \<in> set (filter_Values T p c)"
      unfolding filter_Values_def by (simp del: dynamic_cast.simps)
    then show "(k, v) \<in> set (filter_Values T p c)"
      by (simp add: cast_def)
  qed
  then show ?thesis
    by auto
qed

text \<open>
  Claim C5: for a container with entries of mixed stored types and any type \<open>T\<close>, the
  view \<open>filter<T>\<close> with the always-true predicate yields exactly the entries whose
  stored type is \<open>T\<close>, in ascending key order, and \<open>size()\<close> of the view is the
  number of such entries.
\<close>

theorem filter_always_true:
  assumes "invar c"
  shows "set (filter_Values T (\<lambda>k. True) c) =
           {(k, v). map_of c k = Some (GenericValue v) \<and> typeof v = T} \<and>
         sorted (map fst (filter_Values T (\<lambda>k. True) c)) \<and>
         distinct (map fst (filter_Values T (\<lambda>k. True) c)) \<and>
         size_Filtered (filter_Values T (\<lambda>k. True) c) =
           card {k. \<exists>v. map_of c k = Some (GenericValue v) \<and> typeof v = T}"
proof -
  let ?view = "filter_Values T (\<lambda>k. True) c"
  have s: "set ?view = {(k, v). map_of c k = Some (GenericValue v) \<and> typeof v = T}"
    using set_filter_Values [OF assms, of T "\<lambda>k. True"] by simp
  have d: "distinct (map fst ?view)"
    by (rule invar_filter_Values [OF assms])
  have "size_Filtered ?view = length (map fst ?view)"
    by (simp add: size_Filtered_length)
  also have "\<dots> = card (set (map fst ?view))"
    using distinct_card [OF d] by simp
  also have "set (map fst ?view) =
      {k. \<exists>v. map_of c k = Some (GenericValue v) \<and> typeof v = T}"
    unfolding set_map s by force
  finally show ?thesis
    using s d invar_filter_Values(1) [OF assms] by blast
qed

theorem filter_always_true_witness:
  "invar example_Values \<and>
   filter_Values (Class ''Rot3'') (\<lambda>k. True) example_Values =
     [(1, Obj ''Rot3'' 0), (3, Obj ''Rot3'' 90)] \<and>
   set [(1::nat, Obj ''Rot3'' 0 :: (int, int) cvalue), (3, Obj ''Rot3'' 90)] =
     {(k, v). map_of example_Values k = Some (GenericValue v) \<and> typeof v = Class ''Rot3''} \<and>
   size_Filtered [(1::nat, Obj ''Rot3'' 0 :: (int, int) cvalue), (3, Obj ''Rot3'' 90)] =
     card {k. \<exists>v. map_of example_Values k = Some (GenericValue v) \<and>
                  typeof v = Class ''Rot3''} \<and>
   size_Filtered [(1::nat, Obj ''Rot3'' 0 :: (int, int) cvalue), (3, Obj ''Rot3'' 90)] = 2"
proof -
  have view: "filter_Values (Class ''Rot3'') (\<lambda>k. True) example_Values =
     [(1, Obj ''Rot3'' 0), (3, Obj ''Rot3'' 90)]"
    by (simp add: filter_Values_def filterHelper_def cast_def example_Values_def)
  have two: "size_Filtered [(1::nat, Obj ''Rot3'' 0 :: (int, int) cvalue), (3, Obj ''Rot3'' 90)] = 2"
    by (simp add: size_Filtered_def)
  note inst = filter_always_true [OF invar_example_Values, of "Class ''Rot3''", unfolded view]
  show ?thesis
    by (intro conjI)
      (fact invar_example_Values view two inst [THEN conjunct1]
         inst [THEN conjunct2, THEN conjunct2, THEN conjunct2])+
qed

subsection \<open>A container from a view\<close>

lemma insert_all_result:
  assumes "distinct (map fst view)" and "fst ` set view \<inter> fst ` set c = {}" and "invar c"
  shows "\<exists>c'. insert_all view c = Inr c' \<and> invar c' \<and>
           fst ` set c' = fst ` set c \<union> fst ` set view \<and>
           (\<forall>k. map_of c' k =
              (case map_of view k of Some v \<Rightarrow> Some (handle_wrap k v) | None \<Rightarrow> map_of c k))"
  using assms
proof (induction view arbitrary: c)
  case Nil
  then show ?case by simp
next
  case (Cons kv rest)
  obtain k v where kv: "kv = (k, v)"
    by (cases kv)
  let ?c1 = "insort_key fst (k, handle_wrap k v) c"
  from Cons.prems kv have absent: "k \<notin> fst ` set c" and fresh: "k \<notin> fst ` set rest"
    by auto
  have step: "insert_Values k v c = (Inr (), ?c1)"
    using absent by (rule insert_Values_absent)
  have inv1: "invar ?c1"
    using Cons.prems(3) absent by (rule invar_insort_key)
  have keys1: "fst ` set ?c1 = insert k (fst ` set c)"
    by (rule set_fst_insort_key)
  have disj: "fst ` set rest \<inter> fst ` set ?c1 = {}"
    using Cons.prems(1,2) kv unfolding keys1 by auto
  have dist: "distinct (map fst rest)"
    using Cons.prems(1) by simp
  from Cons.IH [OF dist disj inv1] obtain c' where
    c': "insert_all rest ?c1 = Inr c'" "invar c'"
        "fst ` set c' = fst ` set ?c1 \<union> fst ` set rest"
        "\<And>k'. map_of c' k' =
           (case map_of rest k' of Some v' \<Rightarrow> Some (handle_wrap k' v') | None \<Rightarrow> map_of ?c1 k')"
    by blast
  have run: "insert_all (kv # rest) c = Inr c'"
    using c'(1) by (simp add: kv step)
  have keys: "fst ` set c' = fst ` set c \<union> fst ` set (kv # rest)"
    unfolding c'(3) keys1 by (auto simp: kv)
  have none: "map_of rest k = None"
    using fresh by (simp add: map_of_eq_None_iff)
  have look: "map_of c' k' =
      (case map_of (kv # rest) k' of Some v' \<Rightarrow> Some (handle_wrap k' v') | None \<Rightarrow> map_of c k')"
    for k'
    unfolding c'(4) [of k'] map_of_insort_key [OF absent]
    by (cases "k' = k") (simp_all add: kv none split: option.split)
  from run c'(2) keys look show ?case
    by blast
qed

text \<open>
  Claim C6: for every container \<open>C\<close>, type \<open>T\<close> and key predicate \<open>pred\<close>, the
  container constructed from the view \<open>filter<T>(pred)\<close> over \<open>C\<close> has as its keys
  exactly the keys of \<open>C\<close> whose stored type is \<open>T\<close> and that satisfy \<open>pred\<close>,
  each with a value that holds what the value in \<open>C\<close> holds. The holder is the one
  \<open>insert\<close> builds for the value.
\<close>

theorem copy_of_filtered_view:
  assumes "invar C"
  shows "\<exists>C'. Values_of_Filtered (filter_Values T pred C) = Inr C' \<and> invar C' \<and>
           fst ` set C' =
             {k. pred k \<and> (\<exists>v. map_of C k = Some (GenericValue v) \<and> typeof v = T)} \<and>
           (\<forall>k v. pred k \<and> map_of C k = Some (GenericValue v) \<and> typeof v = T \<longrightarrow>
              map_of C' k = Some (handle_wrap k v) \<and>
              contents (value_of (handle_wrap k v)) = contents v)"
proof -
  let ?view = "filter_Values T pred C"
  have dist: "distinct (map fst ?view)"
    by (rule invar_filter_Values [OF assms])
  have mem: "(k, v) \<in> set ?view \<longleftrightarrow>
      pred k \<and> map_of C k = Some (GenericValue v) \<and> typeof v = T" for k v
    unfolding set_filter_Values [OF assms] by simp
  from insert_all_result [OF dist _ invar_Nil] obtain C' where
    C': "insert_all ?view [] = Inr C'" "invar C'" "fst ` set C' = fst ` set ?view"
        "\<And>k. map_of C' k =
           (case map_of ?view k of Some v \<Rightarrow> Some (handle_wrap k v) | None \<Rightarrow> map_of [] k)"
    by auto
  have keys: "fst ` set C' =
      {k. pred k \<and> (\<exists>v. map_of C k = Some (GenericValue v) \<and> typeof v = T)}"
    unfolding C'(3) using mem by force
  have vals: "map_of C' k = Some (handle_wrap k v)"
    if "pred k \<and> map_of C k = Some (GenericValue v) \<and> typeof v = T" for k v
  proof -
    from that have "(k, v) \<in> set ?view"
      by (simp add: mem)
    with dist have "map_of ?view k = Some v"
      by simp
    then show ?thesis
      by (simp add: C'(4))
  qed
  from C'(1,2) keys vals show ?thesis
    unfolding Values_of_Filtered_def by (auto simp: contents_handle_wrap)
qed

theorem copy_of_filtered_view_witness:
  "invar example_Values \<and>
   Values_of_Filtered (filter_Values (Class ''Rot3'') (\<lambda>k. k < 3) example_Values) =
     Inr [(1, GenericValue (Obj ''Rot3'' 0))] \<and>
   fst ` set [(1::nat, GenericValue (Obj ''Rot3'' 0 :: (int, int) cvalue))] =
     {k. k < 3 \<and> (\<exists>v. map_of example_Values k = Some (GenericValue v) \<and>
                         typeof v = Class ''Rot3'')} \<and>
   (1::nat) < 3 \<and> map_of example_Values 1 = Some (GenericValue (Obj ''Rot3'' 0)) \<and>
   typeof (Obj ''Rot3'' 0 :: (int, int) cvalue) = Class ''Rot3'' \<and>
   map_of [(1::nat, GenericValue (Obj ''Rot3'' 0 :: (int, int) cvalue))] 1 =
     Some (handle_wrap (1::nat) (Obj ''Rot3'' 0))"
proof -
  have run: "Values_of_Filtered (filter_Values (Class ''Rot3'') (\<lambda>k. k < 3) example_Values) =
     Inr [(1, GenericValue (Obj ''Rot3'' 0))]"
    by (simp add: Values_of_Filtered_def filter_Values_def filterHelper_def cast_def
          example_Values_def insert_Values_def insert_holder_def)
  have stored: "map_of example_Values 1 = Some (GenericValue (Obj ''Rot3'' 0))"
    by (simp add: example_Values_def)
  from copy_of_filtered_view [OF invar_example_Values, of "Class ''Rot3''" "\<lambda>k. k < 3"]
  obtain C' where
    C': "Values_of_Filtered (filter_Values (Class ''Rot3'') (\<lambda>k. k < 3) example_Values) =
           Inr C' \<and> invar C' \<and>
         fst ` set C' =
           {k. k < 3 \<and> (\<exists>v. map_of example_Values k = Some (GenericValue v) \<and>
                               typeof v = Class ''Rot3'')} \<and>
         (\<forall>k v. k < 3 \<and> map_of example_Values k = Some (GenericValue v) \<and>
                 typeof v = Class ''Rot3'' \<longrightarrow>
               map_of C' k = Some (handle_wrap k v) \<and>
               contents (value_of (handle_wrap k v)) = contents v)" ..
  from C' [THEN conjunct1] run have eq: "C' = [(1, GenericValue (Obj ''Rot3'' 0))]"
    by simp
  note keys = C' [THEN conjunct2, THEN conjunct2, THEN conjunct1, unfolded eq]
  note vals = C' [THEN conjunct2, THEN conjunct2, THEN conjunct2, unfolded eq]
  have less: "(1::nat) < 3"
    by simp
  have type: "typeof (Obj ''Rot3'' 0 :: (int, int) cvalue) = Class ''Rot3''"
    by simp
  from vals less stored type
  have val: "map_of [(1::nat, GenericValue (Obj ''Rot3'' 0 :: (int, int) cvalue))] 1 =
     Some (handle_wrap (1::nat) (Obj ''Rot3'' 0))"
    by blast
  show ?thesis
    by (intro conjI) (fact invar_example_Values run keys less stored type val)+
qed

end
